theory Spec2Isabelle
  imports Complex_Main "HOL-Library.Sublist" "HOL-Library.AList"
begin

section \<open>Python values held in a snapshot\<close>

text \<open>
  The coordinator's snapshot is decoded JSON: every field of a per-sensor record is
  \<open>None\<close>, a bool, an int, a float, a str, or (for payloads that nest) a list or a dict.
  A float is kept as the exact rational it denotes, or one of the special values: the
  two infinities, NaN, and the negative zero, which compares equal to zero but is
  written \<open>-0.0\<close> (\<open>Finite 0\<close> is the positive zero). The entities compare floats with
  zero, test their truthiness and, for a location name, take their text.
\<close>

datatype pyfloat = Finite rat | NegZero | PosInf | NegInf | NaN

datatype pyval =
    PyNone
  | PyBool bool
  | PyInt int
  | PyFloat pyfloat
  | PyStr string
  | PyList "pyval list"
  | PyDict "(string \<times> pyval) list"

datatype py_error =
    AttributeError
  | ValueError
  | TypeError
  | OverflowError
  | KeyError
  | NotImplementedError

text \<open>\<open>d.get(k, default)\<close> on a dict kept as an association list.\<close>

definition dict_get :: "('k \<times> 'v) list \<Rightarrow> 'k \<Rightarrow> 'v \<Rightarrow> 'v" where
  "dict_get d k dflt = (case map_of d k of None \<Rightarrow> dflt | Some v \<Rightarrow> v)"

text \<open>
  \<open>str.lower()\<close>. A string is its UTF-8 bytes; the ASCII capitals are mapped and every
  other byte is kept. Python also maps capitals beyond ASCII, but the only such characters
  whose lower-case form contains an ASCII letter are U+212A (to \<open>k\<close>) and U+0130 (to
  \<open>i\<close> followed by U+0307), and no literal compared below contains a \<open>k\<close> or is
  matched by a string holding U+0307, so every membership test below comes out the same.
\<close>

definition lower_char :: "char \<Rightarrow> char" where
  "lower_char c =
     (case map_of (zip ''ABCDEFGHIJKLMNOPQRSTUVWXYZ'' ''abcdefghijklmnopqrstuvwxyz'') c of
        None \<Rightarrow> c
      | Some l \<Rightarrow> l)"

definition py_lower :: "string \<Rightarrow> string" where
  "py_lower s = map lower_char s"

text \<open>\<open>x > 0\<close> on a float: false for NaN, for minus infinity and for both zeros.\<close>

fun float_gt_zero :: "pyfloat \<Rightarrow> bool" where
  "float_gt_zero (Finite r) = (0 < r)"
| "float_gt_zero NegZero = False"
| "float_gt_zero PosInf = True"
| "float_gt_zero NegInf = False"
| "float_gt_zero NaN = False"

text \<open>\<open>bool(x)\<close>, Python's truthiness.\<close>

fun py_bool :: "pyval \<Rightarrow> bool" where
  "py_bool PyNone = False"
| "py_bool (PyBool b) = b"
| "py_bool (PyInt i) = (i \<noteq> 0)"
| "py_bool (PyFloat f) = (f \<noteq> Finite 0 \<and> f \<noteq> NegZero)"
| "py_bool (PyStr s) = (s \<noteq> [])"
| "py_bool (PyList xs) = (xs \<noteq> [])"
| "py_bool (PyDict kvs) = (kvs \<noteq> [])"

section \<open>Coordinator and entities\<close>

type_synonym sensor_data = "(string \<times> pyval) list"

type_synonym snapshot = "(string \<times> sensor_data) list"

text \<open>
  What an entity reads of its coordinator: \<open>coordinator.data\<close> (\<open>None\<close> before the first
  successful poll, then the latest snapshot) and \<open>coordinator.last_update_success\<close>.
\<close>

record coordinator =
  data :: "snapshot option"
  last_update_success :: bool

record entity =
  coordinator :: coordinator
  sensor_name :: string

subsection \<open>sensor.py\<close>

definition sensor_native_value :: "entity \<Rightarrow> pyval" where
  "sensor_native_value self =
     (case data (coordinator self) of
        None \<Rightarrow> PyNone
      | Some d \<Rightarrow>
          if d = [] then PyNone
          else
            let sensor_data = dict_get d (sensor_name self) []
            in dict_get sensor_data ''state'' PyNone)"

text \<open>
  \<open>icon.startswith\<close> exists on a str only: a truthy icon of another type raises
  AttributeError.
\<close>

definition sensor_icon :: "entity \<Rightarrow> py_error + pyval" where
  "sensor_icon self =
     (case data (coordinator self) of
        None \<Rightarrow> Inr PyNone
      | Some d \<Rightarrow>
          if d = [] then Inr PyNone
          else
            let sensor_data = dict_get d (sensor_name self) [];
                icon = dict_get sensor_data ''icon'' PyNone
            in if py_bool icon then
                 (case icon of
                    PyStr s \<Rightarrow>
                      if \<not> prefix ''mdi:'' s then Inr (PyStr (''mdi:'' @ s)) else Inr icon
                  | _ \<Rightarrow> Inl AttributeError)
               else Inr icon)"

definition sensor_extra_state_attributes :: "entity \<Rightarrow> (string \<times> pyval) list" where
  "sensor_extra_state_attributes self =
     (case data (coordinator self) of
        None \<Rightarrow> []
      | Some d \<Rightarrow>
          if d = [] then []
          else
            let sensor_data = dict_get d (sensor_name self) []
            in if py_bool (dict_get sensor_data ''color'' PyNone)
               then [(''color'', dict_get sensor_data ''color'' PyNone)]
               else [])"

subsection \<open>binary_sensor.py\<close>

definition is_on :: "entity \<Rightarrow> bool option" where
  "is_on self =
     (case data (coordinator self) of
        None \<Rightarrow> None
      | Some d \<Rightarrow>
          if d = [] then None
          else
            let sensor_data = dict_get d (sensor_name self) [];
                state = dict_get sensor_data ''state'' PyNone
            in (case state of
                  PyNone \<Rightarrow> None
                | PyBool b \<Rightarrow> Some b
                | PyStr s \<Rightarrow>
                    Some (py_lower s \<in>
                      set [''true'', ''on'', ''yes'', ''1'', ''active'', ''open''])
                | PyInt i \<Rightarrow> Some (0 < i)
                | PyFloat f \<Rightarrow> Some (float_gt_zero f)
                | _ \<Rightarrow> Some (py_bool state)))"

definition binary_sensor_icon :: "entity \<Rightarrow> py_error + pyval" where
  "binary_sensor_icon self =
     (case data (coordinator self) of
        None \<Rightarrow> Inr PyNone
      | Some d \<Rightarrow>
          if d = [] then Inr PyNone
          else
            let sensor_data = dict_get d (sensor_name self) [];
                icon = dict_get sensor_data ''icon'' PyNone
            in if py_bool icon then
                 (case icon of
                    PyStr s \<Rightarrow>
                      if \<not> prefix ''mdi:'' s then Inr (PyStr (''mdi:'' @ s)) else Inr icon
                  | _ \<Rightarrow> Inl AttributeError)
               else Inr icon)"

definition binary_sensor_extra_state_attributes :: "entity \<Rightarrow> (string \<times> pyval) list" where
  "binary_sensor_extra_state_attributes self =
     (case data (coordinator self) of
        None \<Rightarrow> []
      | Some d \<Rightarrow>
          if d = [] then []
          else
            let sensor_data = dict_get d (sensor_name self) []
            in if py_bool (dict_get sensor_data ''color'' PyNone)
               then [(''color'', dict_get sensor_data ''color'' PyNone)]
               else [])"

subsection \<open>number.py\<close>

text \<open>
  \<open>float(n)\<close> on an int rounds to the nearest double, ties to even, and raises
  OverflowError (\<open>int too large to convert to float\<close>) when the rounded magnitude is
  \<open>2 ^ 1024\<close> or more, that is from \<open>2 ^ 1024 - 2 ^ 970\<close> on.
\<close>

fun bit_length :: "nat \<Rightarrow> nat" where
  "bit_length n = (if n = 0 then 0 else Suc (bit_length (n div 2)))"

declare bit_length.simps [simp del]

definition round_half_even :: "nat \<Rightarrow> nat" where
  "round_half_even a =
     (let n = bit_length a in
      if n \<le> 53 then a
      else
        let sh = n - 53; q = a div 2 ^ sh; r = a mod 2 ^ sh; half = 2 ^ (sh - 1);
            q' = (if half < r \<or> (r = half \<and> odd q) then q + 1 else q)
        in q' * 2 ^ sh)"

definition int_to_float :: "int \<Rightarrow> py_error + pyfloat" where
  "int_to_float i =
     (if \<bar>i\<bar> < 2 ^ 53 then Inr (Finite (of_int i))
      else if 2 ^ 1024 - 2 ^ 970 \<le> \<bar>i\<bar> then Inl OverflowError
      else Inr (Finite (of_int (sgn i * int (round_half_even (nat \<bar>i\<bar>))))))"

text \<open>
  \<open>float(x)\<close>. The parser of float literals is the interpreter's, not this repository's:
  it is the parameter \<open>float_of_str\<close>, \<open>None\<close> where \<open>float\<close> raises ValueError.
\<close>

definition py_float :: "(string \<Rightarrow> pyfloat option) \<Rightarrow> pyval \<Rightarrow> py_error + pyfloat" where
  "py_float float_of_str v =
     (case v of
        PyNone \<Rightarrow> Inl TypeError
      | PyBool b \<Rightarrow> Inr (Finite (if b then 1 else 0))
      | PyInt i \<Rightarrow> int_to_float i
      | PyFloat f \<Rightarrow> Inr f
      | PyStr s \<Rightarrow> (case float_of_str s of None \<Rightarrow> Inl ValueError | Some f \<Rightarrow> Inr f)
      | PyList xs \<Rightarrow> Inl TypeError
      | PyDict kvs \<Rightarrow> Inl TypeError)"

text \<open>A call of \<open>_LOGGER.warning\<close>: the format string and its arguments.\<close>

datatype log_record = Warning string "pyval list"

text \<open>
  A property that converts with \<open>float\<close> returns its value (or the exception that
  leaves it) together with the warnings it logged. \<open>except (ValueError, TypeError)\<close>
  catches these two exceptions and no other.
\<close>

definition number_native_value ::
  "(string \<Rightarrow> pyfloat option) \<Rightarrow> entity \<Rightarrow> (py_error + pyfloat option) \<times> log_record list" where
  "number_native_value float_of_str self =
     (case data (coordinator self) of
        None \<Rightarrow> (Inr None, [])
      | Some d \<Rightarrow>
          if d = [] then (Inr None, [])
          else
            let sensor_data = dict_get d (sensor_name self) [];
                state = dict_get sensor_data ''state'' PyNone
            in if state = PyNone then (Inr None, [])
               else
                 (case py_float float_of_str state of
                    Inr f \<Rightarrow> (Inr (Some f), [])
                  | Inl e \<Rightarrow>
                      if e = ValueError \<or> e = TypeError then
                        (Inr None,
                         [Warning ''Could not convert state '%s' to number for %s''
                            [state, PyStr (sensor_name self)]])
                      else (Inl e, [])))"

definition number_icon :: "entity \<Rightarrow> py_error + pyval" where
  "number_icon self =
     (case data (coordinator self) of
        None \<Rightarrow> Inr PyNone
      | Some d \<Rightarrow>
          if d = [] then Inr PyNone
          else
            let sensor_data = dict_get d (sensor_name self) [];
                icon = dict_get sensor_data ''icon'' PyNone
            in if py_bool icon then
                 (case icon of
                    PyStr s \<Rightarrow>
                      if \<not> prefix ''mdi:'' s then Inr (PyStr (''mdi:'' @ s)) else Inr icon
                  | _ \<Rightarrow> Inl AttributeError)
               else Inr icon)"

definition number_extra_state_attributes :: "entity \<Rightarrow> (string \<times> pyval) list" where
  "number_extra_state_attributes self =
     (case data (coordinator self) of
        None \<Rightarrow> []
      | Some d \<Rightarrow>
          if d = [] then []
          else
            let sensor_data = dict_get d (sensor_name self) []
            in if py_bool (dict_get sensor_data ''color'' PyNone)
               then [(''color'', dict_get sensor_data ''color'' PyNone)]
               else [])"

text \<open>The set operation raises at once; the entity it is called on is returned as it was.\<close>

definition async_set_native_value :: "entity \<Rightarrow> pyfloat \<Rightarrow> (py_error + unit) \<times> entity" where
  "async_set_native_value self v = (Inl NotImplementedError, self)"

subsection \<open>device_tracker.py\<close>

datatype SourceType = GPS | ROUTER | BLUETOOTH | BLUETOOTH_LE

definition latitude ::
  "(string \<Rightarrow> pyfloat option) \<Rightarrow> entity \<Rightarrow> (py_error + pyfloat option) \<times> log_record list" where
  "latitude float_of_str self =
     (case data (coordinator self) of
        None \<Rightarrow> (Inr None, [])
      | Some d \<Rightarrow>
          if d = [] then (Inr None, [])
          else
            let sensor_data = dict_get d (sensor_name self) [];
                lat = dict_get sensor_data ''latitude'' PyNone
            in if lat \<noteq> PyNone then
                 (case py_float float_of_str lat of
                    Inr f \<Rightarrow> (Inr (Some f), [])
                  | Inl e \<Rightarrow>
                      if e = ValueError \<or> e = TypeError then
                        (Inr None,
                         [Warning ''Could not convert latitude '%s' to float for %s''
                            [lat, PyStr (sensor_name self)]])
                      else (Inl e, []))
               else (Inr None, []))"

definition longitude ::
  "(string \<Rightarrow> pyfloat option) \<Rightarrow> entity \<Rightarrow> (py_error + pyfloat option) \<times> log_record list" where
  "longitude float_of_str self =
     (case data (coordinator self) of
        None \<Rightarrow> (Inr None, [])
      | Some d \<Rightarrow>
          if d = [] then (Inr None, [])
          else
            let sensor_data = dict_get d (sensor_name self) [];
                lng = dict_get sensor_data ''longitude'' PyNone
            in if lng \<noteq> PyNone then
                 (case py_float float_of_str lng of
                    Inr f \<Rightarrow> (Inr (Some f), [])
                  | Inl e \<Rightarrow>
                      if e = ValueError \<or> e = TypeError then
                        (Inr None,
                         [Warning ''Could not convert longitude '%s' to float for %s''
                            [lng, PyStr (sensor_name self)]])
                      else (Inl e, []))
               else (Inr None, []))"

text \<open>
  \<open>str(x)\<close>: a str is returned as it is; for every other value the text is the
  interpreter's \<open>repr\<close>, the parameter \<open>repr\<close>.
\<close>

definition py_str :: "(pyval \<Rightarrow> string) \<Rightarrow> pyval \<Rightarrow> string" where
  "py_str repr v = (case v of PyStr s \<Rightarrow> s | _ \<Rightarrow> repr v)"

definition location_name :: "(pyval \<Rightarrow> string) \<Rightarrow> entity \<Rightarrow> string option" where
  "location_name repr self =
     (case data (coordinator self) of
        None \<Rightarrow> None
      | Some d \<Rightarrow>
          if d = [] then None
          else
            let sensor_data = dict_get d (sensor_name self) [];
                location = dict_get sensor_data ''location_name'' PyNone;
                location = (if \<not> py_bool location
                            then dict_get sensor_data ''state'' PyNone else location)
            in if location \<noteq> PyNone then Some (py_str repr location) else None)"

text \<open>\<open>source.lower\<close> exists on a str only: any other value raises AttributeError.\<close>

definition source_type :: "entity \<Rightarrow> py_error + SourceType" where
  "source_type self =
     (case data (coordinator self) of
        None \<Rightarrow> Inr GPS
      | Some d \<Rightarrow>
          if d = [] then Inr GPS
          else
            let sensor_data = dict_get d (sensor_name self) [];
                source = dict_get sensor_data ''source_type'' (PyStr ''gps'')
            in (case source of
                  PyStr s \<Rightarrow>
                    if py_lower s = ''router'' then Inr ROUTER
                    else if py_lower s = ''bluetooth'' then Inr BLUETOOTH
                    else if py_lower s = ''bluetooth_le'' then Inr BLUETOOTH_LE
                    else Inr GPS
                | _ \<Rightarrow> Inl AttributeError))"

definition device_tracker_icon :: "entity \<Rightarrow> py_error + pyval" where
  "device_tracker_icon self =
     (case data (coordinator self) of
        None \<Rightarrow> Inr PyNone
      | Some d \<Rightarrow>
          if d = [] then Inr PyNone
          else
            let sensor_data = dict_get d (sensor_name self) [];
                icon = dict_get sensor_data ''icon'' PyNone
            in if py_bool icon then
                 (case icon of
                    PyStr s \<Rightarrow>
                      if \<not> prefix ''mdi:'' s then Inr (PyStr (''mdi:'' @ s)) else Inr icon
                  | _ \<Rightarrow> Inl AttributeError)
               else Inr icon)"

definition device_tracker_extra_state_attributes :: "entity \<Rightarrow> (string \<times> pyval) list" where
  "device_tracker_extra_state_attributes self =
     (case data (coordinator self) of
        None \<Rightarrow> []
      | Some d \<Rightarrow>
          if d = [] then []
          else
            let sensor_data = dict_get d (sensor_name self) []
            in (if py_bool (dict_get sensor_data ''color'' PyNone)
                then [(''color'', dict_get sensor_data ''color'' PyNone)] else [])
               @ (if dict_get sensor_data ''latitude'' PyNone \<noteq> PyNone
                  then [(''raw_latitude'', dict_get sensor_data ''latitude'' PyNone)] else [])
               @ (if dict_get sensor_data ''longitude'' PyNone \<noteq> PyNone
                  then [(''raw_longitude'', dict_get sensor_data ''longitude'' PyNone)] else []))"

subsection \<open>config_flow.py\<close>

text \<open>
  \<open>urllib.parse.urlparse\<close> belongs to the standard library: it is the parameter
  \<open>urlparse\<close>, which returns the parts the flow reads or the exception it raises. The
  keys and defaults of \<open>const.py\<close> that a step uses are parameters too.
\<close>

record parse_result =
  scheme :: string
  netloc :: string

text \<open>The fields both flow classes keep between steps.\<close>

record flow =
  flow_data :: "(string \<times> pyval) list"
  headers :: "(string \<times> string) list"
  sensors :: "(string \<times> pyval) list list"
  current_sensor :: "(string \<times> pyval) list option"

text \<open>
  What a step returns: a form to show (step id, errors, description placeholders), a
  created entry (title, data) or an abort.
\<close>

datatype flow_result =
    ShowForm string "(string \<times> string) list" "(string \<times> string) list"
  | CreateEntry string "(string \<times> pyval) list"
  | Abort string

text \<open>\<open>d.update(u)\<close>: a key already present keeps its place, a new key goes last.\<close>

definition dict_update :: "('k \<times> 'v) list \<Rightarrow> ('k \<times> 'v) list \<Rightarrow> ('k \<times> 'v) list" where
  "dict_update d u = fold (\<lambda>(k, v). AList.update k v) u d"

fun py_join :: "string \<Rightarrow> string list \<Rightarrow> string" where
  "py_join sep [] = []"
| "py_join sep [x] = x"
| "py_join sep (x # y # ys) = x @ sep @ py_join sep (y # ys)"

text \<open>
  \<open>async_step_headers()\<close> as \<open>async_step_user\<close> calls it, without input: it shows the
  headers form, listing the headers entered so far, one per line after a bullet
  (U+2022, three bytes).
\<close>

definition async_step_headers :: "flow \<Rightarrow> flow_result \<times> flow" where
  "async_step_headers self =
     (let header_list =
            (if headers self \<noteq> [] then
               py_join [CHR 0x0A]
                 (map (\<lambda>(k, v). [CHR 0xE2, CHR 0x80, CHR 0xA2] @ '' '' @ k @ '': '' @ v)
                    (headers self))
             else [])
      in (ShowForm ''headers'' [] [(''headers'', header_list)], self))"

text \<open>
  \<open>except Exception\<close> catches whatever \<open>urlparse\<close> raises, and the KeyError of
  \<open>user_input[CONF_URL]\<close> when the key is missing.
\<close>

definition async_step_user ::
  "(pyval \<Rightarrow> py_error + parse_result) \<Rightarrow> string \<Rightarrow> flow \<Rightarrow> (string \<times> pyval) list option
     \<Rightarrow> flow_result \<times> flow" where
  "async_step_user urlparse CONF_URL self user_input =
     (case user_input of
        None \<Rightarrow> (ShowForm ''user'' [] [], self)
      | Some ui \<Rightarrow>
          let errors =
                (case map_of ui CONF_URL of
                   None \<Rightarrow> [(''base'', ''invalid_url'')]
                 | Some url \<Rightarrow>
                     (case urlparse url of
                        Inl e \<Rightarrow> [(''base'', ''invalid_url'')]
                      | Inr parsed \<Rightarrow>
                          if scheme parsed = [] \<or> netloc parsed = []
                          then [(''base'', ''invalid_url'')] else []))
          in if errors = [] then
               async_step_headers (self\<lparr>flow_data := dict_update (flow_data self) ui\<rparr>)
             else (ShowForm ''user'' errors [], self))"

text \<open>The same step of the options flow, which saves the data instead of going on.\<close>

definition async_step_basic ::
  "(pyval \<Rightarrow> py_error + parse_result) \<Rightarrow> string \<Rightarrow> flow \<Rightarrow> (string \<times> pyval) list option
     \<Rightarrow> flow_result \<times> flow" where
  "async_step_basic urlparse CONF_URL self user_input =
     (case user_input of
        None \<Rightarrow> (ShowForm ''basic'' [] [], self)
      | Some ui \<Rightarrow>
          let errors =
                (case map_of ui CONF_URL of
                   None \<Rightarrow> [(''base'', ''invalid_url'')]
                 | Some url \<Rightarrow>
                     (case urlparse url of
                        Inl e \<Rightarrow> [(''base'', ''invalid_url'')]
                      | Inr parsed \<Rightarrow>
                          if scheme parsed = [] \<or> netloc parsed = []
                          then [(''base'', ''invalid_url'')] else []))
          in if errors = [] then
               (CreateEntry [] (dict_update (flow_data self) ui),
                self\<lparr>flow_data := dict_update (flow_data self) ui\<rparr>)
             else (ShowForm ''basic'' errors [], self))"

text \<open>
  The validators of the form's schema. \<open>int(x)\<close> truncates a float towards zero and
  raises on infinities (OverflowError) and NaN (ValueError); the parser of int literals
  is the parameter \<open>int_of_str\<close>, \<open>None\<close> where \<open>int\<close> raises ValueError.
  \<open>vol.Coerce(int)\<close> turns the ValueError or TypeError of \<open>int\<close> into its own
  error; \<open>vol.Range(min, max)\<close> includes both bounds; \<open>vol.All\<close> runs its validators
  in order, each on the value the one before returned.
\<close>

definition py_int :: "(string \<Rightarrow> int option) \<Rightarrow> pyval \<Rightarrow> py_error + int" where
  "py_int int_of_str v =
     (case v of
        PyNone \<Rightarrow> Inl TypeError
      | PyBool b \<Rightarrow> Inr (if b then 1 else 0)
      | PyInt i \<Rightarrow> Inr i
      | PyFloat f \<Rightarrow>
          (case f of
             Finite r \<Rightarrow> Inr (if 0 \<le> r then \<lfloor>r\<rfloor> else \<lceil>r\<rceil>)
           | NegZero \<Rightarrow> Inr 0
           | PosInf \<Rightarrow> Inl OverflowError
           | NegInf \<Rightarrow> Inl OverflowError
           | NaN \<Rightarrow> Inl ValueError)
      | PyStr s \<Rightarrow> (case int_of_str s of None \<Rightarrow> Inl ValueError | Some i \<Rightarrow> Inr i)
      | PyList xs \<Rightarrow> Inl TypeError
      | PyDict kvs \<Rightarrow> Inl TypeError)"

datatype vol_error = CoerceInvalid | RangeInvalid | Raised py_error

definition Coerce_int :: "(string \<Rightarrow> int option) \<Rightarrow> pyval \<Rightarrow> vol_error + int" where
  "Coerce_int int_of_str v =
     (case py_int int_of_str v of
        Inr i \<Rightarrow> Inr i
      | Inl e \<Rightarrow> if e = ValueError \<or> e = TypeError then Inl CoerceInvalid else Inl (Raised e))"

definition Range :: "int \<Rightarrow> int \<Rightarrow> int \<Rightarrow> vol_error + int" where
  "Range mn mx v =
     (if \<not> mn \<le> v then Inl RangeInvalid
      else if \<not> v \<le> mx then Inl RangeInvalid
      else Inr v)"

definition All2 ::
  "('a \<Rightarrow> vol_error + 'b) \<Rightarrow> ('b \<Rightarrow> vol_error + 'c) \<Rightarrow> 'a \<Rightarrow> vol_error + 'c" where
  "All2 f g v = (case f v of Inl e \<Rightarrow> Inl e | Inr w \<Rightarrow> g w)"

text \<open>The schema entries of \<open>CONF_TIMEOUT\<close> and \<open>CONF_INTERVAL\<close>, the same in both flows.\<close>

definition timeout_schema :: "(string \<Rightarrow> int option) \<Rightarrow> pyval \<Rightarrow> vol_error + int" where
  "timeout_schema int_of_str = All2 (Coerce_int int_of_str) (Range 1 300)"

definition interval_schema :: "(string \<Rightarrow> int option) \<Rightarrow> pyval \<Rightarrow> vol_error + int" where
  "interval_schema int_of_str = All2 (Coerce_int int_of_str) (Range 5 86400)"

subsection \<open>The polling side\<close>

text \<open>
  Modelled from the spec: \<open>coordinator.py\<close>, the class that polls the endpoint, is
  imported by every platform but is not among the source files. The endpoint
  configuration is the one of the spec's data model: URL, method, ordered headers,
  optional content type and payload, timeout, poll interval, TLS-verification flag.
\<close>

record endpoint_config =
  config_url :: string
  config_method :: string
  config_headers :: "(string \<times> string) list"
  config_content_type :: "string option"
  config_payload :: "string option"
  config_timeout :: int
  config_interval :: int
  config_verify_ssl :: bool

text \<open>
  Modelled from the spec: the request of \<open>coordinator.py\<close>, which is missing. Method and
  URL are taken verbatim from the configuration, the headers are applied in declaration
  order, the payload goes with its content type, and one timeout governs the request.
\<close>

record http_request =
  request_url :: string
  request_method :: string
  request_headers :: "(string \<times> string) list"
  request_content_type :: "string option"
  request_payload :: "string option"
  request_timeout :: int
  request_verify_ssl :: bool

definition build_request :: "endpoint_config \<Rightarrow> http_request" where
  "build_request cfg =
     \<lparr>request_url = config_url cfg,
      request_method = config_method cfg,
      request_headers = config_headers cfg,
      request_content_type = config_content_type cfg,
      request_payload = config_payload cfg,
      request_timeout = config_timeout cfg,
      request_verify_ssl = config_verify_ssl cfg\<rparr>"

text \<open>
  Modelled from the spec: the classified errors of a fetch in \<open>coordinator.py\<close>, which is
  missing: timeout, connection failure, a status outside 2xx (with the status), and a
  body that cannot be decoded. A configuration error is not among them.
\<close>

datatype fetch_error = FetchTimeout | FetchConnection | FetchHttpStatus int | FetchParse

text \<open>
  Modelled from the spec: Fetch/Normalize of \<open>coordinator.py\<close>, which is missing. One
  invocation performs exactly one request and returns the normalized top-level mapping or
  a classified error. Sending the request and decoding the answer is the transport, a
  parameter; the requests sent are returned beside the result.
\<close>

definition fetch_normalize ::
  "(http_request \<Rightarrow> fetch_error + (string \<times> pyval) list) \<Rightarrow> endpoint_config
     \<Rightarrow> (fetch_error + (string \<times> pyval) list) \<times> http_request list" where
  "fetch_normalize transport cfg = (let req = build_request cfg in (transport req, [req]))"

text \<open>
  Modelled from the spec: the state of the polling coordinator of \<open>coordinator.py\<close>,
  which is missing: its configuration, one of three observable states, and the snapshot
  it holds.
\<close>

datatype poll_state = INITIALIZING | HEALTHY | UNAVAILABLE

record polling_coordinator =
  endpoint :: endpoint_config
  state_of :: poll_state
  held_snapshot :: snapshot

text \<open>
  Modelled from the spec: one poll of \<open>coordinator.py\<close>, which is missing. It invokes
  Fetch/Normalize once. On success a fresh snapshot, built from the top-level mapping by
  the endpoint's addressing scheme (the parameter \<open>build_snapshot\<close>), replaces the held
  one and the state becomes healthy; on failure the state becomes unavailable and the
  held snapshot stays. The poll returns the new state, the error if there was one, and
  the requests sent.
\<close>

definition poll_tick ::
  "(http_request \<Rightarrow> fetch_error + (string \<times> pyval) list)
     \<Rightarrow> ((string \<times> pyval) list \<Rightarrow> snapshot) \<Rightarrow> polling_coordinator
     \<Rightarrow> polling_coordinator \<times> fetch_error option \<times> http_request list" where
  "poll_tick transport build_snapshot c =
     (case fetch_normalize transport (endpoint c) of
        (Inr raw, sent) \<Rightarrow>
          (c\<lparr>state_of := HEALTHY, held_snapshot := build_snapshot raw\<rparr>, None, sent)
      | (Inl e, sent) \<Rightarrow> (c\<lparr>state_of := UNAVAILABLE\<rparr>, Some e, sent))"

text \<open>The entity a test builds: a coordinator holding one snapshot, and a sensor name.\<close>

definition entity_of :: "snapshot option \<Rightarrow> string \<Rightarrow> entity" where
  "entity_of snap name =
     \<lparr>coordinator = \<lparr>data = snap, last_update_success = True\<rparr>, sensor_name = name\<rparr>"

subsection \<open>Instances of the interpreter's functions for the examples\<close>

text \<open>
  The examples below run the properties on concrete snapshots, so they need concrete
  values of the parameters. Each instance is the table of what the interpreter returns
  on the inputs the examples use: \<open>float('21.5')\<close> is 21.5 and \<open>float('abc')\<close>
  raises; \<open>int('30')\<close> is 30; \<open>repr(5)\<close> is \<open>5\<close>;
  \<open>urlparse('http://example.com/api')\<close> has the scheme \<open>http\<close> and the netloc
  \<open>example.com\<close>, \<open>urlparse('example.com')\<close> has neither, and
  \<open>urlparse('http://[::1')\<close> raises ValueError.
\<close>

definition example_float_of_str :: "string \<Rightarrow> pyfloat option" where
  "example_float_of_str s = (if s = ''21.5'' then Some (Finite (43 / 2)) else None)"

definition example_int_of_str :: "string \<Rightarrow> int option" where
  "example_int_of_str s = (if s = ''30'' then Some 30 else None)"

definition example_repr :: "pyval \<Rightarrow> string" where
  "example_repr v = (if v = PyInt 5 then ''5'' else ''None'')"

definition example_urlparse :: "pyval \<Rightarrow> py_error + parse_result" where
  "example_urlparse v =
     (if v = PyStr ''http://example.com/api''
      then Inr \<lparr>scheme = ''http'', netloc = ''example.com''\<rparr>
      else if v = PyStr ''example.com'' then Inr \<lparr>scheme = [], netloc = []\<rparr>
      else Inl ValueError)"

text \<open>
  For a poll: an endpoint that answers a request for \<open>example.com\<close>, the URL the
  configuration step refuses, with one sensor, and is unreachable under any other URL;
  an addressing scheme that takes each nested object as the record of its key.
\<close>

definition example_transport :: "http_request \<Rightarrow> fetch_error + (string \<times> pyval) list" where
  "example_transport req =
     (if request_url req = ''example.com''
      then Inr [(''temp'', PyDict [(''state'', PyFloat (Finite (43 / 2)))])]
      else Inl FetchConnection)"

definition example_build_snapshot :: "(string \<times> pyval) list \<Rightarrow> snapshot" where
  "example_build_snapshot raw =
     concat (map (\<lambda>(k, v). case v of PyDict r \<Rightarrow> [(k, r)] | _ \<Rightarrow> []) raw)"

definition example_polling_coordinator :: polling_coordinator where
  "example_polling_coordinator =
     \<lparr>endpoint =
        \<lparr>config_url = ''example.com'', config_method = ''GET'', config_headers = [],
         config_content_type = None, config_payload = None, config_timeout = 10,
         config_interval = 60, config_verify_ssl = True\<rparr>,
      state_of = INITIALIZING,
      held_snapshot = []\<rparr>"

definition example_flow :: flow where
  "example_flow = \<lparr>flow_data = [], headers = [], sensors = [], current_sensor = None\<rparr>"

section \<open>Binary sensor: boolean coercion\<close>

text \<open>
  C1. With a non-empty snapshot, \<open>is_on\<close> reads the \<open>state\<close> field of the sensor's
  record (\<open>None\<close> when the record or the field is missing) and coerces it: a bool is
  returned as it is; a string is true exactly when it equals, ignoring case, one of
  \<open>true, on, yes, 1, active, open\<close>; an int or a float is true exactly when it is
  strictly greater than zero; \<open>None\<close> gives \<open>None\<close> (unknown), not false; any other
  value (a list, a dict) gives its truthiness.
\<close>

theorem is_on_coercion:
  assumes "data (coordinator self) = Some d" and "d \<noteq> []"
    and "state = dict_get (dict_get d (sensor_name self) []) ''state'' PyNone"
  shows "(state = PyNone \<longrightarrow> is_on self = None)
    \<and> (\<forall>b. state = PyBool b \<longrightarrow> is_on self = Some b)
    \<and> (\<forall>s. state = PyStr s \<longrightarrow>
           is_on self = Some (\<exists>w \<in> {''true'', ''on'', ''yes'', ''1'', ''active'', ''open''}.
                                py_lower s = py_lower w))
    \<and> (\<forall>i. state = PyInt i \<longrightarrow> is_on self = Some (0 < i))
    \<and> (\<forall>r. state = PyFloat (Finite r) \<longrightarrow> is_on self = Some (0 < r))
    \<and> (state = PyFloat NegZero \<longrightarrow> is_on self = Some False)
    \<and> (state = PyFloat PosInf \<longrightarrow> is_on self = Some True)
    \<and> (state = PyFloat NegInf \<longrightarrow> is_on self = Some False)
    \<and> (state = PyFloat NaN \<longrightarrow> is_on self = Some False)
    \<and> (\<forall>xs. state = PyList xs \<longrightarrow> is_on self = Some (xs \<noteq> []))
    \<and> (\<forall>kvs. state = PyDict kvs \<longrightarrow> is_on self = Some (kvs \<noteq> []))"
  using assms by (auto simp: is_on_def Let_def py_lower_def lower_char_def)

theorem is_on_coercion_witness:
  "is_on (entity_of (Some [(''door'', [(''state'', PyStr ''Active'')])]) ''door'') = Some True
   \<and> is_on (entity_of (Some [(''door'', [(''state'', PyStr ''0'')])]) ''door'') = Some False
   \<and> is_on (entity_of (Some [(''door'', [(''state'', PyInt 1)])]) ''door'') = Some True
   \<and> is_on (entity_of (Some [(''door'', [(''state'', PyInt 0)])]) ''door'') = Some False
   \<and> is_on (entity_of (Some [(''door'', [(''state'', PyNone)])]) ''door'') = None
   \<and> is_on (entity_of (Some [(''door'', [(''icon'', PyStr ''home'')])]) ''door'') = None"
  using
    is_on_coercion [of "entity_of (Some [(''door'', [(''state'', PyStr ''Active'')])]) ''door''"
      "[(''door'', [(''state'', PyStr ''Active'')])]" "PyStr ''Active''"]
    is_on_coercion [of "entity_of (Some [(''door'', [(''state'', PyStr ''0'')])]) ''door''"
      "[(''door'', [(''state'', PyStr ''0'')])]" "PyStr ''0''"]
    is_on_coercion [of "entity_of (Some [(''door'', [(''state'', PyInt 1)])]) ''door''"
      "[(''door'', [(''state'', PyInt 1)])]" "PyInt 1"]
    is_on_coercion [of "entity_of (Some [(''door'', [(''state'', PyInt 0)])]) ''door''"
      "[(''door'', [(''state'', PyInt 0)])]" "PyInt 0"]
    is_on_coercion [of "entity_of (Some [(''door'', [(''state'', PyNone)])]) ''door''"
      "[(''door'', [(''state'', PyNone)])]" "PyNone"]
    is_on_coercion [of "entity_of (Some [(''door'', [(''icon'', PyStr ''home'')])]) ''door''"
      "[(''door'', [(''icon'', PyStr ''home'')])]" "PyNone"]
  by (simp add: entity_of_def dict_get_def py_lower_def lower_char_def)

section \<open>Rendering None and absent fields\<close>

text \<open>
  Every property but one renders a record whose fields are \<open>None\<close> or absent without
  raising: the value, the icon and the coordinates are \<open>None\<close>, the attributes are
  empty.
\<close>

lemma none_fields_render:
  assumes "data (coordinator self) = Some d"
    and "\<forall>k. dict_get (dict_get d (sensor_name self) []) k PyNone = PyNone"
  shows "sensor_native_value self = PyNone"
    and "is_on self = None"
    and "number_native_value p self = (Inr None, [])"
    and "latitude p self = (Inr None, [])"
    and "longitude p self = (Inr None, [])"
    and "location_name repr self = None"
    and "sensor_icon self = Inr PyNone"
    and "binary_sensor_icon self = Inr PyNone"
    and "number_icon self = Inr PyNone"
    and "device_tracker_icon self = Inr PyNone"
    and "sensor_extra_state_attributes self = []"
    and "binary_sensor_extra_state_attributes self = []"
    and "number_extra_state_attributes self = []"
    and "device_tracker_extra_state_attributes self = []"
  using assms
  by (simp_all add: sensor_native_value_def is_on_def number_native_value_def latitude_def
      longitude_def location_name_def sensor_icon_def binary_sensor_icon_def number_icon_def
      device_tracker_icon_def sensor_extra_state_attributes_def
      binary_sensor_extra_state_attributes_def number_extra_state_attributes_def
      device_tracker_extra_state_attributes_def Let_def)

text \<open>
  C2. The device tracker's \<open>source_type\<close> reads the field with the default \<open>gps\<close>,
  which covers an absent key only, and calls \<open>lower\<close> on what it got: on a record
  whose \<open>source_type\<close> is \<open>None\<close>, or a number, the property raises AttributeError
  where the other properties of the same record render.
\<close>

theorem source_type_none_raises:
  "source_type (entity_of (Some [(''phone'', [(''state'', PyStr ''home''),
      (''source_type'', PyNone)])]) ''phone'') = Inl AttributeError
   \<and> source_type (entity_of (Some [(''phone'', [(''state'', PyStr ''home''),
      (''source_type'', PyInt 1)])]) ''phone'') = Inl AttributeError
   \<and> source_type (entity_of (Some [(''phone'', [(''state'', PyStr ''home'')])]) ''phone'')
       = Inr GPS"
  by (simp add: source_type_def entity_of_def dict_get_def py_lower_def lower_char_def)

section \<open>Numeric coercion\<close>

text \<open>
  When \<open>float\<close> raises ValueError or TypeError, the number entity and the tracker's
  coordinates log one warning and report no value.
\<close>

lemma number_native_value_caught:
  assumes "data (coordinator self) = Some d" and "d \<noteq> []"
    and "state = dict_get (dict_get d (sensor_name self) []) ''state'' PyNone"
    and "state \<noteq> PyNone"
    and "py_float p state = Inl ValueError \<or> py_float p state = Inl TypeError"
  shows "\<exists>w. number_native_value p self = (Inr None, [w])"
  using assms by (auto simp: number_native_value_def Let_def)

lemma latitude_caught:
  assumes "data (coordinator self) = Some d" and "d \<noteq> []"
    and "lat = dict_get (dict_get d (sensor_name self) []) ''latitude'' PyNone"
    and "lat \<noteq> PyNone"
    and "py_float p lat = Inl ValueError \<or> py_float p lat = Inl TypeError"
  shows "\<exists>w. latitude p self = (Inr None, [w])"
  using assms by (auto simp: latitude_def Let_def)

lemma longitude_caught:
  assumes "data (coordinator self) = Some d" and "d \<noteq> []"
    and "lng = dict_get (dict_get d (sensor_name self) []) ''longitude'' PyNone"
    and "lng \<noteq> PyNone"
    and "py_float p lng = Inl ValueError \<or> py_float p lng = Inl TypeError"
  shows "\<exists>w. longitude p self = (Inr None, [w])"
  using assms by (auto simp: longitude_def Let_def)

text \<open>
  C3. An int too large for a double fails the conversion with OverflowError, which
  \<open>except (ValueError, TypeError)\<close> does not catch: the number entity's value and
  the tracker's coordinates raise it, and no warning is logged.
\<close>

theorem float_overflow_raises:
  "number_native_value float_of_str
     (entity_of (Some [(''level'', [(''state'', PyInt (10 ^ 400))])]) ''level'')
     = (Inl OverflowError, [])
   \<and> latitude float_of_str
     (entity_of (Some [(''phone'', [(''latitude'', PyInt (10 ^ 400))])]) ''phone'')
     = (Inl OverflowError, [])
   \<and> longitude float_of_str
     (entity_of (Some [(''phone'', [(''longitude'', PyInt (10 ^ 400))])]) ''phone'')
     = (Inl OverflowError, [])"
  by (simp add: number_native_value_def latitude_def longitude_def entity_of_def dict_get_def
      py_float_def int_to_float_def)

section \<open>Icon normalization\<close>

text \<open>
  C4. With a non-empty snapshot, all four entity kinds render the \<open>icon\<close> field of the
  sensor's record alike: a non-empty string without the prefix \<open>mdi:\<close> gets the prefix,
  a string that has it is returned unchanged, the empty string is returned empty, and a
  missing or \<open>None\<close> icon is \<open>None\<close>.
\<close>

theorem icon_normalization:
  assumes "data (coordinator self) = Some d" and "d \<noteq> []"
    and "icon = dict_get (dict_get d (sensor_name self) []) ''icon'' PyNone"
  shows "binary_sensor_icon self = sensor_icon self
    \<and> number_icon self = sensor_icon self
    \<and> device_tracker_icon self = sensor_icon self
    \<and> (\<forall>s. icon = PyStr s \<and> s \<noteq> [] \<and> \<not> prefix ''mdi:'' s \<longrightarrow>
           sensor_icon self = Inr (PyStr (''mdi:'' @ s)))
    \<and> (\<forall>s. icon = PyStr s \<and> prefix ''mdi:'' s \<longrightarrow> sensor_icon self = Inr (PyStr s))
    \<and> (icon = PyStr [] \<longrightarrow> sensor_icon self = Inr (PyStr []))
    \<and> (icon = PyNone \<longrightarrow> sensor_icon self = Inr PyNone)"
  using assms
  by (auto simp: sensor_icon_def binary_sensor_icon_def number_icon_def
      device_tracker_icon_def Let_def)

theorem icon_normalization_witness:
  "sensor_icon (entity_of (Some [(''temp'', [(''icon'', PyStr ''home'')])]) ''temp'')
     = Inr (PyStr ''mdi:home'')
   \<and> device_tracker_icon (entity_of (Some [(''temp'', [(''icon'', PyStr ''home'')])]) ''temp'')
     = Inr (PyStr ''mdi:home'')
   \<and> sensor_icon (entity_of (Some [(''temp'', [(''icon'', PyStr ''mdi:home'')])]) ''temp'')
     = Inr (PyStr ''mdi:home'')
   \<and> sensor_icon (entity_of (Some [(''temp'', [(''icon'', PyStr [])])]) ''temp'')
     = Inr (PyStr [])
   \<and> sensor_icon (entity_of (Some [(''temp'', [(''state'', PyInt 1)])]) ''temp'')
     = Inr PyNone"
  using
    icon_normalization [of "entity_of (Some [(''temp'', [(''icon'', PyStr ''home'')])]) ''temp''"
      "[(''temp'', [(''icon'', PyStr ''home'')])]" "PyStr ''home''"]
    icon_normalization [of
      "entity_of (Some [(''temp'', [(''icon'', PyStr ''mdi:home'')])]) ''temp''"
      "[(''temp'', [(''icon'', PyStr ''mdi:home'')])]" "PyStr ''mdi:home''"]
    icon_normalization [of "entity_of (Some [(''temp'', [(''icon'', PyStr [])])]) ''temp''"
      "[(''temp'', [(''icon'', PyStr [])])]" "PyStr []"]
    icon_normalization [of "entity_of (Some [(''temp'', [(''state'', PyInt 1)])]) ''temp''"
      "[(''temp'', [(''state'', PyInt 1)])]" "PyNone"]
  by (simp add: entity_of_def dict_get_def)

section \<open>Plain sensor value\<close>

text \<open>
  C5. When the snapshot holds a record under the sensor's name, the plain sensor's
  native value is that record's \<open>state\<close> field as it stands (\<open>None\<close> if the record has
  none); when the snapshot has no record under the name, the value is \<open>None\<close>.
\<close>

theorem sensor_native_value_is_state:
  assumes "data (coordinator self) = Some d"
  shows "(\<forall>r v. map_of d (sensor_name self) = Some r \<and> map_of r ''state'' = Some v \<longrightarrow>
            sensor_native_value self = v)
    \<and> (\<forall>r. map_of d (sensor_name self) = Some r \<and> map_of r ''state'' = None \<longrightarrow>
            sensor_native_value self = PyNone)
    \<and> (map_of d (sensor_name self) = None \<longrightarrow> sensor_native_value self = PyNone)"
  using assms by (auto simp: sensor_native_value_def dict_get_def Let_def)

theorem sensor_native_value_is_state_witness:
  "sensor_native_value (entity_of (Some [(''temp'', [(''state'', PyFloat (Finite (43 / 2))),
      (''unit_of_measurement'', PyStr ''C'')])]) ''temp'') = PyFloat (Finite (43 / 2))
   \<and> sensor_native_value (entity_of (Some [(''temp'', [(''state'', PyFloat (Finite (43 / 2))),
      (''unit_of_measurement'', PyStr ''C'')])]) ''humidity'') = PyNone"
  using
    sensor_native_value_is_state [of
      "entity_of (Some [(''temp'', [(''state'', PyFloat (Finite (43 / 2))),
         (''unit_of_measurement'', PyStr ''C'')])]) ''temp''"
      "[(''temp'', [(''state'', PyFloat (Finite (43 / 2))),
         (''unit_of_measurement'', PyStr ''C'')])]"]
    sensor_native_value_is_state [of
      "entity_of (Some [(''temp'', [(''state'', PyFloat (Finite (43 / 2))),
         (''unit_of_measurement'', PyStr ''C'')])]) ''humidity''"
      "[(''temp'', [(''state'', PyFloat (Finite (43 / 2))),
         (''unit_of_measurement'', PyStr ''C'')])]"]
  by (simp add: entity_of_def)

section \<open>Configuration flow\<close>

text \<open>
  C6. On a submitted form, the initial step goes on to the headers step, with the input
  merged into the flow's data, exactly when the URL is present and parses without an
  exception to a non-empty scheme and a non-empty netloc; otherwise it shows its own
  form again with the error \<open>invalid_url\<close> and leaves the flow as it was. The options
  flow's basic step decides the same way between creating the entry and showing its
  form with the error. A poll does no such check: it sends exactly one request, which
  carries the configured URL verbatim whatever that URL is, the only error it reports is
  the classified error of that fetch, and when the fetch succeeds the poll is healthy.
\<close>

theorem url_validation:
  "(if \<exists>url p. map_of ui CONF_URL = Some url \<and> urlparse url = Inr p
         \<and> scheme p \<noteq> [] \<and> netloc p \<noteq> []
    then async_step_user urlparse CONF_URL self (Some ui)
           = async_step_headers (self\<lparr>flow_data := dict_update (flow_data self) ui\<rparr>)
       \<and> fst (async_step_basic urlparse CONF_URL self (Some ui))
           = CreateEntry [] (dict_update (flow_data self) ui)
    else async_step_user urlparse CONF_URL self (Some ui)
           = (ShowForm ''user'' [(''base'', ''invalid_url'')] [], self)
       \<and> async_step_basic urlparse CONF_URL self (Some ui)
           = (ShowForm ''basic'' [(''base'', ''invalid_url'')] [], self))
   \<and> ((\<exists>ph. fst (async_step_user urlparse CONF_URL self (Some ui)) = ShowForm ''headers'' [] ph)
        \<longleftrightarrow> (\<exists>url p. map_of ui CONF_URL = Some url \<and> urlparse url = Inr p
               \<and> scheme p \<noteq> [] \<and> netloc p \<noteq> []))
   \<and> snd (snd (poll_tick transport build_snapshot c)) = [build_request (endpoint c)]
   \<and> request_url (build_request (endpoint c)) = config_url (endpoint c)
   \<and> (\<forall>e. fst (snd (poll_tick transport build_snapshot c)) = Some e \<longrightarrow>
          transport (build_request (endpoint c)) = Inl e)
   \<and> (\<forall>raw. transport (build_request (endpoint c)) = Inr raw \<longrightarrow>
          fst (poll_tick transport build_snapshot c)
            = c\<lparr>state_of := HEALTHY, held_snapshot := build_snapshot raw\<rparr>
          \<and> fst (snd (poll_tick transport build_snapshot c)) = None)"
proof -
  have steps:
    "(if \<exists>url p. map_of ui CONF_URL = Some url \<and> urlparse url = Inr p
           \<and> scheme p \<noteq> [] \<and> netloc p \<noteq> []
      then async_step_user urlparse CONF_URL self (Some ui)
             = async_step_headers (self\<lparr>flow_data := dict_update (flow_data self) ui\<rparr>)
         \<and> fst (async_step_basic urlparse CONF_URL self (Some ui))
             = CreateEntry [] (dict_update (flow_data self) ui)
      else async_step_user urlparse CONF_URL self (Some ui)
             = (ShowForm ''user'' [(''base'', ''invalid_url'')] [], self)
         \<and> async_step_basic urlparse CONF_URL self (Some ui)
             = (ShowForm ''basic'' [(''base'', ''invalid_url'')] [], self))
     \<and> ((\<exists>ph. fst (async_step_user urlparse CONF_URL self (Some ui))
               = ShowForm ''headers'' [] ph)
          \<longleftrightarrow> (\<exists>url p. map_of ui CONF_URL = Some url \<and> urlparse url = Inr p
                 \<and> scheme p \<noteq> [] \<and> netloc p \<noteq> []))"
    by (auto simp: async_step_user_def async_step_basic_def async_step_headers_def Let_def
        split: option.splits sum.splits)
  have poll:
    "snd (snd (poll_tick transport build_snapshot c)) = [build_request (endpoint c)]
     \<and> request_url (build_request (endpoint c)) = config_url (endpoint c)
     \<and> (\<forall>e. fst (snd (poll_tick transport build_snapshot c)) = Some e \<longrightarrow>
            transport (build_request (endpoint c)) = Inl e)
     \<and> (\<forall>raw. transport (build_request (endpoint c)) = Inr raw \<longrightarrow>
            fst (poll_tick transport build_snapshot c)
              = c\<lparr>state_of := HEALTHY, held_snapshot := build_snapshot raw\<rparr>
            \<and> fst (snd (poll_tick transport build_snapshot c)) = None)"
    by (cases "transport (build_request (endpoint c))")
      (simp_all add: poll_tick_def fetch_normalize_def Let_def build_request_def)
  from steps poll show ?thesis by blast
qed

theorem url_validation_witness:
  "async_step_user example_urlparse ''url'' example_flow
     (Some [(''url'', PyStr ''http://example.com/api''), (''timeout'', PyInt 30)])
     = (ShowForm ''headers'' [] [(''headers'', [])],
        example_flow\<lparr>flow_data :=
          [(''url'', PyStr ''http://example.com/api''), (''timeout'', PyInt 30)]\<rparr>)
   \<and> async_step_user example_urlparse ''url'' example_flow
     (Some [(''url'', PyStr ''example.com'')])
     = (ShowForm ''user'' [(''base'', ''invalid_url'')] [], example_flow)
   \<and> async_step_user example_urlparse ''url'' example_flow
     (Some [(''url'', PyStr ''http://[::1'')])
     = (ShowForm ''user'' [(''base'', ''invalid_url'')] [], example_flow)
   \<and> poll_tick example_transport example_build_snapshot example_polling_coordinator
     = (example_polling_coordinator
          \<lparr>state_of := HEALTHY,
           held_snapshot := [(''temp'', [(''state'', PyFloat (Finite (43 / 2)))])]\<rparr>,
        None,
        [build_request (endpoint example_polling_coordinator)])
   \<and> request_url (build_request (endpoint example_polling_coordinator)) = ''example.com''"
  using
    url_validation [of "[(''url'', PyStr ''http://example.com/api''), (''timeout'', PyInt 30)]"
      "''url''" example_urlparse example_flow]
    url_validation [of "[(''url'', PyStr ''example.com'')]" "''url''" example_urlparse
      example_flow]
    url_validation [of "[(''url'', PyStr ''http://[::1'')]" "''url''" example_urlparse
      example_flow example_transport example_build_snapshot example_polling_coordinator]
  by (simp add: example_urlparse_def example_flow_def async_step_headers_def dict_update_def
      example_transport_def example_build_snapshot_def example_polling_coordinator_def
      build_request_def prod_eq_iff)

text \<open>
  C7. The schema accepts a timeout, returning the integer, exactly when \<open>int\<close> of the
  value succeeds with an integer from 1 to 300, and an interval exactly when \<open>int\<close> of
  the value succeeds with an integer from 5 to 86400.
\<close>

theorem schema_bounds:
  "(timeout_schema p v = Inr n \<longleftrightarrow> py_int p v = Inr n \<and> 1 \<le> n \<and> n \<le> 300)
   \<and> (interval_schema p v = Inr n \<longleftrightarrow> py_int p v = Inr n \<and> 5 \<le> n \<and> n \<le> 86400)"
  by (auto simp: timeout_schema_def interval_schema_def All2_def Coerce_int_def Range_def
      split: sum.splits)

theorem schema_bounds_witness:
  "timeout_schema example_int_of_str (PyStr ''30'') = Inr 30
   \<and> timeout_schema example_int_of_str (PyInt 300) = Inr 300
   \<and> timeout_schema example_int_of_str (PyInt 301) \<noteq> Inr 301
   \<and> timeout_schema example_int_of_str (PyInt 0) \<noteq> Inr 0
   \<and> interval_schema example_int_of_str (PyInt 5) = Inr 5
   \<and> interval_schema example_int_of_str (PyInt 4) \<noteq> Inr 4
   \<and> interval_schema example_int_of_str (PyInt 86400) = Inr 86400
   \<and> interval_schema example_int_of_str (PyInt 86401) \<noteq> Inr 86401"
  using
    schema_bounds [of example_int_of_str "PyStr ''30''" 30]
    schema_bounds [of example_int_of_str "PyInt 300" 300]
    schema_bounds [of example_int_of_str "PyInt 301" 301]
    schema_bounds [of example_int_of_str "PyInt 0" 0]
    schema_bounds [of example_int_of_str "PyInt 5" 5]
    schema_bounds [of example_int_of_str "PyInt 4" 4]
    schema_bounds [of example_int_of_str "PyInt 86400" 86400]
    schema_bounds [of example_int_of_str "PyInt 86401" 86401]
  by (simp add: py_int_def example_int_of_str_def)

section \<open>Number entities are read-only\<close>

text \<open>
  C8. Whatever the value, setting a number entity raises NotImplementedError and leaves
  the entity as it was.
\<close>

theorem set_native_value_read_only:
  "fst (async_set_native_value self v) = Inl NotImplementedError
   \<and> snd (async_set_native_value self v) = self"
  by (simp add: async_set_native_value_def)

section \<open>Location name of a device tracker\<close>

text \<open>
  C9, as stated, fails: a record whose \<open>location_name\<close> is the empty string and whose
  \<open>state\<close> is \<open>None\<close> renders no location name, although \<open>location_name\<close> is neither
  absent nor \<open>None\<close>.
\<close>

theorem location_name_counterexample:
  "\<not> (location_name example_repr
         (entity_of (Some [(''phone'', [(''location_name'', PyStr []), (''state'', PyNone)])])
            ''phone'') = None
       \<longrightarrow> (map_of [(''location_name'', PyStr []), (''state'', PyNone)] ''location_name''
              \<in> {None, Some PyNone}
            \<and> map_of [(''location_name'', PyStr []), (''state'', PyNone)] ''state''
              \<in> {None, Some PyNone}))"
  by (simp add: location_name_def entity_of_def dict_get_def)

text \<open>
  C9, amended. With a non-empty snapshot: a truthy \<open>location_name\<close> is rendered as its
  string; one that is absent, \<open>None\<close> or falsy falls back to \<open>state\<close>, rendered as its
  string; and the rendered name is \<open>None\<close> exactly when \<open>location_name\<close> is absent,
  \<open>None\<close> or falsy and \<open>state\<close> is absent or \<open>None\<close>.
\<close>

theorem location_name_fallback:
  assumes "data (coordinator self) = Some d" and "d \<noteq> []"
    and "loc = dict_get (dict_get d (sensor_name self) []) ''location_name'' PyNone"
    and "st = dict_get (dict_get d (sensor_name self) []) ''state'' PyNone"
  shows "(py_bool loc \<longrightarrow> location_name repr self = Some (py_str repr loc))
    \<and> (\<not> py_bool loc \<and> st \<noteq> PyNone \<longrightarrow> location_name repr self = Some (py_str repr st))
    \<and> (location_name repr self = None \<longleftrightarrow> \<not> py_bool loc \<and> st = PyNone)"
  using assms by (auto simp: location_name_def Let_def)

theorem location_name_fallback_witness:
  "location_name example_repr
     (entity_of (Some [(''phone'', [(''location_name'', PyStr ''Home''),
        (''state'', PyStr ''not_home'')])]) ''phone'') = Some ''Home''
   \<and> location_name example_repr
     (entity_of (Some [(''phone'', [(''location_name'', PyStr []), (''state'', PyInt 5)])])
        ''phone'') = Some ''5''
   \<and> location_name example_repr
     (entity_of (Some [(''phone'', [(''location_name'', PyInt 0)])]) ''phone'') = None"
  using
    location_name_fallback [of
      "entity_of (Some [(''phone'', [(''location_name'', PyStr ''Home''),
         (''state'', PyStr ''not_home'')])]) ''phone''"
      "[(''phone'', [(''location_name'', PyStr ''Home''), (''state'', PyStr ''not_home'')])]"
      "PyStr ''Home''" "PyStr ''not_home''" example_repr]
    location_name_fallback [of
      "entity_of (Some [(''phone'', [(''location_name'', PyStr []), (''state'', PyInt 5)])])
         ''phone''"
      "[(''phone'', [(''location_name'', PyStr []), (''state'', PyInt 5)])]"
      "PyStr []" "PyInt 5" example_repr]
    location_name_fallback [of
      "entity_of (Some [(''phone'', [(''location_name'', PyInt 0)])]) ''phone''"
      "[(''phone'', [(''location_name'', PyInt 0)])]"
      "PyInt 0" "PyNone" example_repr]
  by (simp add: entity_of_def dict_get_def py_str_def example_repr_def)

section \<open>Empty and absent snapshots\<close>

text \<open>
  C10. When the coordinator's data is \<open>None\<close> or an empty mapping, every value property
  is \<open>None\<close> (nothing is converted, nothing is logged) and every extra-attributes
  property is empty.
\<close>

theorem empty_snapshot_renders_nothing:
  assumes "data (coordinator self) = None \<or> data (coordinator self) = Some []"
  shows "sensor_native_value self = PyNone
    \<and> is_on self = None
    \<and> number_native_value p self = (Inr None, [])
    \<and> latitude p self = (Inr None, [])
    \<and> longitude p self = (Inr None, [])
    \<and> location_name repr self = None
    \<and> sensor_icon self = Inr PyNone
    \<and> binary_sensor_icon self = Inr PyNone
    \<and> number_icon self = Inr PyNone
    \<and> device_tracker_icon self = Inr PyNone
    \<and> sensor_extra_state_attributes self = []
    \<and> binary_sensor_extra_state_attributes self = []
    \<and> number_extra_state_attributes self = []
    \<and> device_tracker_extra_state_attributes self = []"
  using assms
  by (auto simp: sensor_native_value_def is_on_def number_native_value_def latitude_def
      longitude_def location_name_def sensor_icon_def binary_sensor_icon_def number_icon_def
      device_tracker_icon_def sensor_extra_state_attributes_def
      binary_sensor_extra_state_attributes_def number_extra_state_attributes_def
      device_tracker_extra_state_attributes_def)

theorem empty_snapshot_renders_nothing_witness:
  "sensor_native_value (entity_of (Some []) ''temp'') = PyNone
   \<and> is_on (entity_of (Some []) ''temp'') = None
   \<and> number_native_value example_float_of_str (entity_of (Some []) ''temp'') = (Inr None, [])
   \<and> latitude example_float_of_str (entity_of None ''temp'') = (Inr None, [])
   \<and> sensor_extra_state_attributes (entity_of (Some []) ''temp'') = []
   \<and> device_tracker_extra_state_attributes (entity_of None ''temp'') = []"
  using
    empty_snapshot_renders_nothing [of "entity_of (Some []) ''temp''" example_float_of_str
      example_repr]
    empty_snapshot_renders_nothing [of "entity_of None ''temp''" example_float_of_str
      example_repr]
  by (simp add: entity_of_def)

end
